theory Spec2Isabelle
  imports Main "HOL-Library.AList"
begin

section \<open>The rule no-extraneous-dependencies\<close>

text \<open>
  A shallow embedding of \<^verbatim>\<open>src/rules/no-extraneous-dependencies.js\<close>. Every function of the
  file is a definition below, under its own name. What the file imports from other modules
  (the manifest locator, the file system, the JSON parser, the path functions, the import
  classifier, the module resolver, the glob matcher) is a field of the record \<open>world\<close>, so
  every theorem holds for all behaviours of these collaborators.
\<close>

subsection \<open>Data\<close>

text \<open>
  An object parsed from a manifest maps package names to version strings. It is modelled as
  the list of its own properties in insertion order, each key once.
\<close>

type_synonym obj = "(string \<times> string) list"

text \<open>
  The objects of the file are object literals or come from a JSON parser, so their
  prototype is \<^verbatim>\<open>Object.prototype\<close>, and reading a property that an object does not own
  finds the one of that name there. These are its property names in ECMAScript (with the
  legacy accessors of Annex B, which Node has).
\<close>

definition Object_prototype_properties :: "string list" where
  "Object_prototype_properties =
     [''constructor'', ''hasOwnProperty'', ''isPrototypeOf'', ''propertyIsEnumerable'',
      ''toLocaleString'', ''toString'', ''valueOf'', ''__proto__'',
      ''__defineGetter__'', ''__defineSetter__'', ''__lookupGetter__'', ''__lookupSetter__'']"

text \<open>
  \<^verbatim>\<open>obj[name] !== undefined\<close>: an own property holds a version string, an inherited one a
  function or (for \<^verbatim>\<open>__proto__\<close>) the prototype; none of them is undefined.
\<close>

definition is_defined :: "obj \<Rightarrow> string \<Rightarrow> bool" where
  "is_defined obj name = (map_of obj name \<noteq> None \<or> name \<in> set Object_prototype_properties)"

text \<open>The parsed manifest, an object: each of the four fields may be missing.\<close>

record pkgjson =
  pkg_dependencies :: "obj option"
  pkg_devDependencies :: "obj option"
  pkg_optionalDependencies :: "obj option"
  pkg_peerDependencies :: "obj option"

text \<open>The object built by \<^verbatim>\<open>extractDepFields\<close>.\<close>

record deps =
  dependencies :: obj
  devDependencies :: obj
  optionalDependencies :: obj
  peerDependencies :: obj

text \<open>
  A thrown JavaScript error, with the properties the \<^verbatim>\<open>catch\<close> block reads:
  \<^verbatim>\<open>e.code\<close>, \<^verbatim>\<open>e.name\<close>, \<^verbatim>\<open>e instanceof SyntaxError\<close> and \<^verbatim>\<open>e.message\<close>.
\<close>

record js_error =
  err_code :: "string option"
  err_name :: string
  err_instanceof_SyntaxError :: bool
  err_message :: string

text \<open>
  The object returned by \<^verbatim>\<open>readPkgUp.sync\<close>. The source reads \<^verbatim>\<open>closest.path\<close> and
  \<^verbatim>\<open>closest.pkg\<close> without a check; either is \<open>None\<close> when the property is undefined, as
  both are when the locator finds no manifest: it then returns an object without them, it
  does not throw.
\<close>

record closest =
  closest_path :: "string option"
  closest_pkg :: "pkgjson option"

text \<open>
  The syntax nodes the rule visits. An import declaration has \<^verbatim>\<open>importKind\<close> (undefined
  unless the parser sets it) and \<^verbatim>\<open>source.value\<close>; of a call expression the rule
  reads \<^verbatim>\<open>arguments[0].value\<close>.
\<close>

datatype node =
  ImportDeclaration "string option" string
| CallExpression string

fun importKind :: "node \<Rightarrow> string option" where
  "importKind (ImportDeclaration k s) = k"
| "importKind (CallExpression a) = None"

text \<open>
  The two forms of \<^verbatim>\<open>context.report\<close> in the file: a message at a location
  (line, column), and a message at a node.
\<close>

datatype report =
  ReportLoc string nat nat
| ReportNode node string

text \<open>An option of the rule's schema typed \<^verbatim>\<open>['boolean', 'array']\<close>, possibly absent.\<close>

datatype config = CUndefined | CBoolean bool | CArray "string list"

text \<open>The option \<^verbatim>\<open>packageDir\<close>, typed \<^verbatim>\<open>['string', 'array']\<close>, possibly absent.\<close>

datatype packageDir = PDUndefined | PDString string | PDArray "string list"

record options =
  opt_devDependencies :: config
  opt_optionalDependencies :: config
  opt_peerDependencies :: config
  opt_packageDir :: packageDir

record depsOptions =
  allowDevDeps :: bool
  allowOptDeps :: bool
  allowPeerDeps :: bool

text \<open>The collaborators the file imports, and the file under analysis.\<close>

record world =
  getFilename :: string
  readPkgUp_sync :: "string \<Rightarrow> js_error + closest"
  path_resolve :: "string \<Rightarrow> string \<Rightarrow> string"
  fs_readFileSync :: "string \<Rightarrow> js_error + string"
  JSON_parse :: "string \<Rightarrow> js_error + pkgjson"
  importType :: "string \<Rightarrow> string"
  resolve :: "string \<Rightarrow> string option"
  isStaticRequire :: "node \<Rightarrow> bool"
  minimatch :: "string \<Rightarrow> string \<Rightarrow> bool"
  path_join :: "string \<Rightarrow> string \<Rightarrow> string"
  process_cwd :: string

subsection \<open>Strings\<close>

text \<open>\<^verbatim>\<open>s.split(c)\<close> for a one-character separator: never empty, \<^verbatim>\<open>''.split('/')\<close> is \<^verbatim>\<open>['']\<close>.\<close>

fun String_split :: "char \<Rightarrow> string \<Rightarrow> string list" where
  "String_split c [] = [[]]"
| "String_split c (x # xs) =
     (if x = c then [] # String_split c xs
      else (case String_split c xs of
              [] \<Rightarrow> [[x]]
            | y # ys \<Rightarrow> (x # y) # ys))"

text \<open>\<^verbatim>\<open>a.join(c)\<close>.\<close>

fun Array_join :: "char \<Rightarrow> string list \<Rightarrow> string" where
  "Array_join c [] = []"
| "Array_join c [s] = s"
| "Array_join c (s # t # ss) = s @ c # Array_join c (t # ss)"

subsection \<open>Messages\<close>

definition missingErrorMessage :: "string \<Rightarrow> string" where
  "missingErrorMessage packageName =
     [CHR 0x27] @ packageName @ [CHR 0x27] @ '' should be listed in the project's dependencies. ''
     @ ''Run 'npm i -S '' @ packageName @ [CHR 0x27] @ '' to add it''"

definition devDepErrorMessage :: "string \<Rightarrow> string" where
  "devDepErrorMessage packageName =
     [CHR 0x27] @ packageName @ [CHR 0x27]
     @ '' should be listed in the project's dependencies, not devDependencies.''"

definition optDepErrorMessage :: "string \<Rightarrow> string" where
  "optDepErrorMessage packageName =
     [CHR 0x27] @ packageName @ [CHR 0x27] @ '' should be listed in the project's dependencies, ''
     @ ''not optionalDependencies.''"

subsection \<open>reportIfMissing\<close>

text \<open>
  Lines 108 to 111: the package name of a specifier. \<^verbatim>\<open>splitName[0][0]\<close> is undefined for an
  empty first segment, which is not \<^verbatim>\<open>'@'\<close>. \<^verbatim>\<open>split\<close> never returns the empty array, so the
  first case is never taken.
\<close>

definition packageName_of :: "string \<Rightarrow> string" where
  "packageName_of name =
     (let splitName = String_split CHR ''/'' name in
      case splitName of
        [] \<Rightarrow> []
      | s0 # _ \<Rightarrow>
          (if (case s0 of [] \<Rightarrow> False | c # _ \<Rightarrow> c = CHR ''@'')
           then Array_join CHR ''/'' (take 2 splitName)
           else s0))"

text \<open>
  \<^verbatim>\<open>reportIfMissing\<close> returns nothing and reports through \<^verbatim>\<open>context.report\<close>; the model
  returns the list of the reports it makes.
\<close>

definition reportIfMissing ::
  "world \<Rightarrow> deps \<Rightarrow> depsOptions \<Rightarrow> node \<Rightarrow> string \<Rightarrow> report list" where
  "reportIfMissing w deps depsOptions node name =
     (if importKind node = Some ''type'' then []
      else if importType w name \<noteq> ''external'' then []
      else (case resolve w name of
        None \<Rightarrow> []
      | Some resolved \<Rightarrow>
         (let packageName = packageName_of name;
              isInDeps = is_defined (dependencies deps) packageName;
              isInDevDeps = is_defined (devDependencies deps) packageName;
              isInOptDeps = is_defined (optionalDependencies deps) packageName;
              isInPeerDeps = is_defined (peerDependencies deps) packageName
          in if isInDeps \<or>
                (allowDevDeps depsOptions \<and> isInDevDeps) \<or>
                (allowPeerDeps depsOptions \<and> isInPeerDeps) \<or>
                (allowOptDeps depsOptions \<and> isInOptDeps)
             then []
             else if isInDevDeps \<and> \<not> allowDevDeps depsOptions
             then [ReportNode node (devDepErrorMessage packageName)]
             else if isInOptDeps \<and> \<not> allowOptDeps depsOptions
             then [ReportNode node (optDepErrorMessage packageName)]
             else [ReportNode node (missingErrorMessage packageName)])))"

subsection \<open>getDependencies\<close>

text \<open>\<^verbatim>\<open>Object.keys(obj).length > 0\<close>. The default \<^verbatim>\<open>obj = {}\<close> is for an undefined argument,
  which \<^verbatim>\<open>extractDepFields\<close> never produces.\<close>

definition hasKeys :: "obj \<Rightarrow> bool" where
  "hasKeys obj = (length obj > 0)"

text \<open>
  Reading a property of \<^verbatim>\<open>undefined\<close> throws a \<^verbatim>\<open>TypeError\<close>: it has no \<^verbatim>\<open>code\<close>, and its
  message is the engine's (the wording below is the one of V8).
\<close>

definition TypeError_undefined :: "string \<Rightarrow> js_error" where
  "TypeError_undefined prop =
     \<lparr>err_code = None, err_name = ''TypeError'', err_instanceof_SyntaxError = False,
      err_message = ''Cannot read property '' @ [CHR 0x27] @ prop @ [CHR 0x27]
        @ '' of undefined''\<rparr>"

text \<open>\<^verbatim>\<open>pkg.dependencies || {}\<close> and its three siblings; \<^verbatim>\<open>pkg\<close> itself may be undefined.\<close>

definition extractDepFields :: "pkgjson option \<Rightarrow> js_error + deps" where
  "extractDepFields pkg =
     (case pkg of
        None \<Rightarrow> Inl (TypeError_undefined ''dependencies'')
      | Some p \<Rightarrow> Inr
          \<lparr>dependencies = (case pkg_dependencies p of None \<Rightarrow> [] | Some d \<Rightarrow> d),
           devDependencies = (case pkg_devDependencies p of None \<Rightarrow> [] | Some d \<Rightarrow> d),
           optionalDependencies = (case pkg_optionalDependencies p of None \<Rightarrow> [] | Some d \<Rightarrow> d),
           peerDependencies = (case pkg_peerDependencies p of None \<Rightarrow> [] | Some d \<Rightarrow> d)\<rparr>)"

text \<open>
  \<^verbatim>\<open>target[key] = value\<close> for a string value. A key the target owns takes the new value
  in its place, and a new key is added at the end. The one exception is the key
  \<^verbatim>\<open>__proto__\<close> on a target that does not own it: the assignment then reaches the setter that
  \<^verbatim>\<open>Object.prototype\<close> has for this name, which ignores a value that is neither an object
  nor null, and the target is left as it is. (A parsed manifest can own the key:
  the JSON parser defines it as a property of its own.)
\<close>

definition Object_set :: "obj \<Rightarrow> string \<Rightarrow> string \<Rightarrow> obj" where
  "Object_set target key v =
     (if key = ''__proto__'' \<and> map_of target key = None then target
      else AList.update key v target)"

text \<open>\<^verbatim>\<open>Object.assign(target, source)\<close>: every property of the source, in order, is set on
  the target.\<close>

definition Object_assign :: "obj \<Rightarrow> obj \<Rightarrow> obj" where
  "Object_assign target source = foldl (\<lambda>t (k, v). Object_set t k v) target source"

text \<open>\<^verbatim>\<open>assignDeps(fromDeps, toDeps)\<close> copies \<^verbatim>\<open>toDeps\<close> into \<^verbatim>\<open>fromDeps\<close>, which the caller
  goes on using; the model returns the updated \<^verbatim>\<open>fromDeps\<close>.\<close>

definition assignDeps :: "deps \<Rightarrow> deps \<Rightarrow> deps" where
  "assignDeps fromDeps toDeps =
     \<lparr>dependencies = Object_assign (dependencies fromDeps) (dependencies toDeps),
      devDependencies = Object_assign (devDependencies fromDeps) (devDependencies toDeps),
      optionalDependencies =
        Object_assign (optionalDependencies fromDeps) (optionalDependencies toDeps),
      peerDependencies = Object_assign (peerDependencies fromDeps) (peerDependencies toDeps)\<rparr>"

text \<open>\<^verbatim>\<open>packageDir ? [].concat(packageDir) : []\<close>: the empty string is falsy, an array is not.\<close>

fun packageDir_list :: "packageDir \<Rightarrow> string list" where
  "packageDir_list PDUndefined = []"
| "packageDir_list (PDString s) = (if s = [] then [] else [s])"
| "packageDir_list (PDArray ds) = ds"

text \<open>
  The \<^verbatim>\<open>reduce\<close> of lines 38 to 51 over the configured directories. Its state is the array
  \<^verbatim>\<open>files\<close> (which holds \<^verbatim>\<open>closest.path\<close>, possibly undefined, and the manifests read so
  far) and the accumulator \<^verbatim>\<open>allDeps\<close>. A throw of \<^verbatim>\<open>readFileSync\<close>, of \<^verbatim>\<open>JSON.parse\<close>
  or of \<^verbatim>\<open>extractDepFields\<close> leaves the loop.
\<close>

fun reduce_dirs ::
  "world \<Rightarrow> string list \<Rightarrow> string option list \<times> deps \<Rightarrow> js_error + string option list \<times> deps"
  where
  "reduce_dirs w [] (files, allDeps) = Inr (files, allDeps)"
| "reduce_dirs w (dir # dirs) (files, allDeps) =
     (let pkgFile = path_resolve w dir ''package.json'' in
      if Some pkgFile \<notin> set files then
        (case fs_readFileSync w pkgFile of
           Inl e \<Rightarrow> Inl e
         | Inr text \<Rightarrow>
            (case JSON_parse w text of
               Inl e \<Rightarrow> Inl e
             | Inr json \<Rightarrow>
                (case extractDepFields (Some json) of
                   Inl e \<Rightarrow> Inl e
                 | Inr toDeps \<Rightarrow>
                     reduce_dirs w dirs (files @ [Some pkgFile], assignDeps allDeps toDeps))))
      else reduce_dirs w dirs (files, allDeps))"

text \<open>Lines 34 to 51, the part of the \<^verbatim>\<open>try\<close> block that can throw: the thrown error, or
  \<^verbatim>\<open>files\<close> and \<^verbatim>\<open>deps\<close>.\<close>

definition getDependencies_try ::
  "world \<Rightarrow> packageDir \<Rightarrow> js_error + string option list \<times> deps" where
  "getDependencies_try w packageDir =
     (case readPkgUp_sync w (getFilename w) of
        Inl e \<Rightarrow> Inl e
      | Inr closest \<Rightarrow>
         (case extractDepFields (closest_pkg closest) of
            Inl e \<Rightarrow> Inl e
          | Inr allDeps \<Rightarrow>
              reduce_dirs w (packageDir_list packageDir) ([closest_path closest], allDeps)))"

text \<open>The \<^verbatim>\<open>catch\<close> block, lines 61 to 78.\<close>

definition catch_report :: "js_error \<Rightarrow> report" where
  "catch_report e =
     (if err_code e = Some ''ENOENT''
      then ReportLoc ''The package.json file could not be found.'' 0 0
      else if err_name e = ''JSONError'' \<or> err_instanceof_SyntaxError e
      then ReportLoc (''The package.json file could not be parsed: '' @ err_message e) 0 0
      else ReportLoc (err_message e) 0 0)"

text \<open>\<^verbatim>\<open>getDependencies\<close>: the value returned (\<open>None\<close> for undefined) and the reports made.\<close>

definition getDependencies :: "world \<Rightarrow> packageDir \<Rightarrow> deps option \<times> report list" where
  "getDependencies w packageDir =
     (case getDependencies_try w packageDir of
        Inl e \<Rightarrow> (None, [catch_report e])
      | Inr (files, deps) \<Rightarrow>
          (if list_ex hasKeys
                [dependencies deps, devDependencies deps,
                 optionalDependencies deps, peerDependencies deps]
           then (Some deps, [])
           else (None, [])))"

subsection \<open>testConfig and create\<close>

text \<open>\<^verbatim>\<open>testConfig\<close> returns \<^verbatim>\<open>undefined\<close> (\<open>None\<close>) or a boolean.\<close>

definition testConfig :: "world \<Rightarrow> config \<Rightarrow> string \<Rightarrow> bool option" where
  "testConfig w config filename =
     (case config of
        CUndefined \<Rightarrow> None
      | CBoolean b \<Rightarrow> Some b
      | CArray cs \<Rightarrow> Some (list_ex (\<lambda>c.
          minimatch w filename c \<or>
          minimatch w filename (path_join w (process_cwd w) c)) cs))"

text \<open>\<^verbatim>\<open>context.options[0] || {}\<close>: without an options object every option is undefined.\<close>

definition options_of :: "options option \<Rightarrow> options" where
  "options_of ruleOptions =
     (case ruleOptions of
        None \<Rightarrow> \<lparr>opt_devDependencies = CUndefined, opt_optionalDependencies = CUndefined,
                 opt_peerDependencies = CUndefined, opt_packageDir = PDUndefined\<rparr>
      | Some opts \<Rightarrow> opts)"

text \<open>
  \<^verbatim>\<open>create\<close>: the reports made while the rule is set up, and the visitor object. The empty
  object \<^verbatim>\<open>{}\<close> is \<open>None\<close>; the two handlers close over \<^verbatim>\<open>deps\<close> and \<^verbatim>\<open>depsOptions\<close>, which
  is what \<open>Some\<close> carries.
\<close>

definition create :: "world \<Rightarrow> options option \<Rightarrow> report list \<times> (deps \<times> depsOptions) option" where
  "create w ruleOptions =
     (let options = options_of ruleOptions;
          filename = getFilename w
      in case getDependencies w (opt_packageDir options) of
           (None, reports) \<Rightarrow> (reports, None)
         | (Some deps, reports) \<Rightarrow>
             (reports, Some (deps,
                \<lparr>allowDevDeps = (testConfig w (opt_devDependencies options) filename \<noteq> Some False),
                 allowOptDeps =
                   (testConfig w (opt_optionalDependencies options) filename \<noteq> Some False),
                 allowPeerDeps =
                   (testConfig w (opt_peerDependencies options) filename \<noteq> Some False)\<rparr>)))"

text \<open>The handlers \<^verbatim>\<open>ImportDeclaration\<close> and \<^verbatim>\<open>CallExpression\<close> of the visitor object.\<close>

fun visit :: "world \<Rightarrow> deps \<times> depsOptions \<Rightarrow> node \<Rightarrow> report list" where
  "visit w (deps, depsOptions) (ImportDeclaration k v) =
     reportIfMissing w deps depsOptions (ImportDeclaration k v) v"
| "visit w (deps, depsOptions) (CallExpression a) =
     (if isStaticRequire w (CallExpression a)
      then reportIfMissing w deps depsOptions (CallExpression a) a
      else [])"

text \<open>
  The linter's side of the contract: it calls \<^verbatim>\<open>create\<close> once for the file, then the
  handler of the visitor object for each node of the file, in order; an empty visitor
  object handles no node.
\<close>

definition lintFile :: "world \<Rightarrow> options option \<Rightarrow> node list \<Rightarrow> report list" where
  "lintFile w ruleOptions nodes =
     (case create w ruleOptions of
        (reports, None) \<Rightarrow> reports
      | (reports, Some v) \<Rightarrow> reports @ concat (map (visit w v) nodes))"

subsection \<open>The four tables\<close>



subsection \<open>Example inputs\<close>

text \<open>A manifest, the table built from it, a file-not-found error and a project layout, for
  evaluating the definitions on concrete inputs.\<close>

definition example_pkg :: pkgjson where
  "example_pkg =
     \<lparr>pkg_dependencies = Some [(''lodash'', ''^4.0.0''), (''@scope/pkg'', ''1.0.0'')],
      pkg_devDependencies = Some [(''jest'', ''^27''), (''lodash'', ''^4.0.0'')],
      pkg_optionalDependencies = Some [(''fsevents'', ''*'')],
      pkg_peerDependencies = Some [(''react'', ''>=16'')]\<rparr>"

definition example_deps :: deps where
  "example_deps =
     \<lparr>dependencies = [(''lodash'', ''^4.0.0''), (''@scope/pkg'', ''1.0.0'')],
      devDependencies = [(''jest'', ''^27''), (''lodash'', ''^4.0.0'')],
      optionalDependencies = [(''fsevents'', ''*'')],
      peerDependencies = [(''react'', ''>=16'')]\<rparr>"

definition ENOENT :: js_error where
  "ENOENT = \<lparr>err_code = Some ''ENOENT'', err_name = ''Error'', err_instanceof_SyntaxError = False,
     err_message = ''ENOENT: no such file or directory''\<rparr>"

definition SyntaxError :: js_error where
  "SyntaxError = \<lparr>err_code = None, err_name = ''SyntaxError'', err_instanceof_SyntaxError = True,
     err_message = ''Unexpected end of JSON input''\<rparr>"

definition EACCES :: js_error where
  "EACCES = \<lparr>err_code = Some ''EACCES'', err_name = ''Error'', err_instanceof_SyntaxError = False,
     err_message = ''EACCES: permission denied''\<rparr>"

definition example_lib_pkg :: pkgjson where
  "example_lib_pkg =
     \<lparr>pkg_dependencies = Some [(''left-pad'', ''1.3.0''), (''lodash'', ''^3.0.0'')],
      pkg_devDependencies = None,
      pkg_optionalDependencies = None,
      pkg_peerDependencies = None\<rparr>"

text \<open>
  A project at \<^verbatim>\<open>/proj\<close> whose manifest is \<open>example_pkg\<close>, a second manifest in \<^verbatim>\<open>/lib\<close>, a
  broken one in \<^verbatim>\<open>/broken\<close>, an unreadable one in \<^verbatim>\<open>/locked\<close>, and none anywhere else.
  The glob matcher of the example knows patterns that end in \<^verbatim>\<open>/**\<close> only.
\<close>

definition example_world :: world where
  "example_world =
     \<lparr>getFilename = ''/proj/src/foo.js'',
      readPkgUp_sync = (\<lambda>cwd. Inr \<lparr>closest_path = Some ''/proj/package.json'',
                                      closest_pkg = Some example_pkg\<rparr>),
      path_resolve = (\<lambda>dir file. dir @ ''/'' @ file),
      fs_readFileSync = (\<lambda>file.
         if file = ''/lib/package.json'' then Inr ''lib manifest''
         else if file = ''/broken/package.json'' then Inr ''{''
         else if file = ''/locked/package.json'' then Inl EACCES
         else Inl ENOENT),
      JSON_parse = (\<lambda>text. if text = ''lib manifest'' then Inr example_lib_pkg
                            else Inl SyntaxError),
      importType = (\<lambda>name. if take 1 name = ''.'' then ''parent'' else ''external''),
      resolve = (\<lambda>name. if name = ''ghost'' then None
                         else Some (''/proj/node_modules/'' @ name)),
      isStaticRequire = (\<lambda>node. True),
      minimatch = (\<lambda>file pattern.
         (case rev pattern of
            c1 # c2 # c3 # p \<Rightarrow>
              [c3, c2, c1] = ''/**'' \<and> take (Suc (length p)) file = rev p @ ''/''
          | _ \<Rightarrow> False)),
      path_join = (\<lambda>a b. a @ ''/'' @ b),
      process_cwd = ''/proj''\<rparr>"

text \<open>The same project seen from a file with no manifest in any directory above it: the
  locator returns an object without \<^verbatim>\<open>path\<close> and \<^verbatim>\<open>pkg\<close>.\<close>

definition orphan_world :: world where
  "orphan_world =
     example_world\<lparr>getFilename := ''/tmp/foo.js'',
       readPkgUp_sync := (\<lambda>cwd. Inr \<lparr>closest_path = None, closest_pkg = None\<rparr>)\<rparr>"

text \<open>The same project with a manifest that declares no dependency at all.\<close>

definition bare_world :: world where
  "bare_world =
     example_world\<lparr>readPkgUp_sync := (\<lambda>cwd. Inr
       \<lparr>closest_path = Some ''/proj/package.json'',
        closest_pkg = Some \<lparr>pkg_dependencies = None, pkg_devDependencies = None,
          pkg_optionalDependencies = Some [], pkg_peerDependencies = None\<rparr>\<rparr>)\<rparr>"


text \<open>A project whose own manifest declares nothing, with a configured directory whose
  manifest lists the key \<^verbatim>\<open>__proto__\<close> and nothing else.\<close>

definition proto_world :: world where
  "proto_world =
     bare_world\<lparr>fs_readFileSync := (\<lambda>file. Inr ''proto manifest''),
       JSON_parse := (\<lambda>content. Inr
         \<lparr>pkg_dependencies = Some [(''__proto__'', ''1.0.0'')], pkg_devDependencies = None,
          pkg_optionalDependencies = None, pkg_peerDependencies = None\<rparr>)\<rparr>"

section \<open>Properties\<close>

subsection \<open>Splitting and joining\<close>

lemma String_split_not_Nil: "String_split c s \<noteq> []"
  by (induction s) (auto split: list.splits)

lemma String_split_no_separator: "c \<notin> set s \<Longrightarrow> String_split c s = [s]"
  by (induction s) (auto split: list.splits)

lemma String_split_append: "c \<notin> set s \<Longrightarrow> String_split c (s @ c # t) = s # String_split c t"
  by (induction s) (auto split: list.splits simp: String_split_not_Nil)

lemma String_split_join:
  "ss \<noteq> [] \<Longrightarrow> \<forall>s\<in>set ss. c \<notin> set s \<Longrightarrow> String_split c (Array_join c ss) = ss"
  by (induction c ss rule: Array_join.induct)
     (auto simp: String_split_no_separator String_split_append)

lemma packageName_of_join:
  assumes "\<forall>t\<in>set (s # ss). CHR ''/'' \<notin> set t"
  shows "packageName_of (Array_join CHR ''/'' (s # ss)) =
     (if take 1 s = ''@'' then Array_join CHR ''/'' (take 2 (s # ss)) else s)"
proof -
  have "String_split CHR ''/'' (Array_join CHR ''/'' (s # ss)) = s # ss"
    using assms by (intro String_split_join) auto
  then show ?thesis
    by (cases s) (auto simp: packageName_of_def)
qed

lemma reportIfMissing_cong:
  assumes "packageName_of a = packageName_of b"
    and "importType w a = importType w b"
    and "(resolve w a = None) = (resolve w b = None)"
  shows "reportIfMissing w deps depsOptions node a = reportIfMissing w deps depsOptions node b"
  using assms by (auto simp: reportIfMissing_def Let_def split: option.splits)

text \<open>
  C4. The package name of a specifier is decided by its first path segments only. For a
  specifier made of the segments \<open>s # ss\<close> (none of which holds a slash) joined by slashes,
  the package name is the first two segments joined by a slash when \<open>s\<close> begins with \<open>@\<close>, and
  \<open>s\<close> alone otherwise. Hence \<^verbatim>\<open>reportIfMissing\<close> makes the same reports, for every table and
  every setting of the options, on the whole specifier and on the specifier cut down to
  its package name, when the import classifier and the resolver treat the two alike.
\<close>

theorem package_name_extraction:
  assumes "\<forall>t\<in>set (s # ss). CHR ''/'' \<notin> set t"
  shows "packageName_of (Array_join CHR ''/'' (s # ss)) =
           (if take 1 s = ''@'' then Array_join CHR ''/'' (take 2 (s # ss)) else s)
       \<and> (let long = Array_join CHR ''/'' (s # ss);
               short = (if take 1 s = ''@'' then Array_join CHR ''/'' (take 2 (s # ss)) else s)
          in importType w long = importType w short \<and>
             (resolve w long = None) = (resolve w short = None) \<longrightarrow>
             reportIfMissing w deps depsOptions node long =
             reportIfMissing w deps depsOptions node short)"
proof -
  let ?short = "if take 1 s = ''@'' then take 2 (s # ss) else [s]"
  have 1: "packageName_of (Array_join CHR ''/'' (s # ss)) =
           (if take 1 s = ''@'' then Array_join CHR ''/'' (take 2 (s # ss)) else s)"
    using assms by (rule packageName_of_join)
  have "\<forall>t\<in>set ?short. CHR ''/'' \<notin> set t"
    using assms by (auto dest: in_set_takeD)
  moreover define ss' where "ss' = (if take 1 s = ''@'' then take 1 ss else [])"
  then have ss': "?short = s # ss'" and tk: "take 2 (s # ss') = s # ss'"
    by auto
  ultimately have "packageName_of (Array_join CHR ''/'' (s # ss')) =
      (if take 1 s = ''@'' then Array_join CHR ''/'' (take 2 (s # ss')) else s)"
    by (intro packageName_of_join) simp
  then have 2: "packageName_of (Array_join CHR ''/'' ?short) =
      (if take 1 s = ''@'' then Array_join CHR ''/'' (take 2 (s # ss)) else s)"
    using ss' tk by (auto split: if_splits)
  have 3: "Array_join CHR ''/'' ?short =
      (if take 1 s = ''@'' then Array_join CHR ''/'' (take 2 (s # ss)) else s)"
    by simp
  show ?thesis
    unfolding Let_def using 1 2 3 by (auto intro!: reportIfMissing_cong)
qed

theorem package_name_extraction_witness:
  "packageName_of ''@babel/core/lib/parse'' = ''@babel/core''
   \<and> packageName_of ''lodash/fp'' = ''lodash''
   \<and> reportIfMissing example_world example_deps
        \<lparr>allowDevDeps = True, allowOptDeps = True, allowPeerDeps = True\<rparr>
        (CallExpression ''@babel/core/lib/parse'') ''@babel/core/lib/parse'' =
      reportIfMissing example_world example_deps
        \<lparr>allowDevDeps = True, allowOptDeps = True, allowPeerDeps = True\<rparr>
        (CallExpression ''@babel/core/lib/parse'') ''@babel/core''
   \<and> reportIfMissing example_world example_deps
        \<lparr>allowDevDeps = True, allowOptDeps = True, allowPeerDeps = True\<rparr>
        (CallExpression ''@babel/core/lib/parse'') ''@babel/core/lib/parse'' =
      [ReportNode (CallExpression ''@babel/core/lib/parse'')
         (missingErrorMessage ''@babel/core'')]"
proof -
  have a: "\<forall>t\<in>set [''@babel'', ''core'', ''lib'', ''parse'']. CHR ''/'' \<notin> set t"
    and b: "\<forall>t\<in>set [''lodash'', ''fp'']. CHR ''/'' \<notin> set t"
    by simp_all
  have e: "importType example_world ''@babel/core/lib/parse'' =
           importType example_world ''@babel/core''"
    and r: "(resolve example_world ''@babel/core/lib/parse'' = None) =
            (resolve example_world ''@babel/core'' = None)"
    by (simp_all add: example_world_def)
  have v: "reportIfMissing example_world example_deps
        \<lparr>allowDevDeps = True, allowOptDeps = True, allowPeerDeps = True\<rparr>
        (CallExpression ''@babel/core/lib/parse'') ''@babel/core'' =
      [ReportNode (CallExpression ''@babel/core/lib/parse'')
         (missingErrorMessage ''@babel/core'')]"
    by (simp add: reportIfMissing_def Let_def example_world_def example_deps_def
          packageName_of_def is_defined_def Object_prototype_properties_def)
  from package_name_extraction [OF a, of example_world example_deps
      "\<lparr>allowDevDeps = True, allowOptDeps = True, allowPeerDeps = True\<rparr>"
      "CallExpression ''@babel/core/lib/parse''"]
    package_name_extraction [OF b] e r v
  show ?thesis by (simp add: Let_def)
qed

subsection \<open>Merging objects\<close>






lemma Object_assign_examples:
  "Object_assign [] [(''__proto__'', ''1.0.0''), (''left-pad'', ''1.3.0'')] =
     [(''left-pad'', ''1.3.0'')]
   \<and> Object_assign [(''__proto__'', ''1.0.0'')] [(''__proto__'', ''2.0.0'')] =
     [(''__proto__'', ''2.0.0'')]
   \<and> Object_assign [(''lodash'', ''^4.0.0'')] [(''constructor'', ''1.0.0''), (''lodash'', ''^3.0.0'')] =
     [(''lodash'', ''^3.0.0''), (''constructor'', ''1.0.0'')]"
  by (simp add: Object_assign_def Object_set_def)




subsection \<open>The loop over the configured directories\<close>










subsection \<open>Classification\<close>

text \<open>
  What the tests of lines 112 to 115 see: an own key is defined, and for a name that
  \<^verbatim>\<open>Object.prototype\<close> does not have, only an own key is.
\<close>

lemma is_defined_own: "map_of obj name \<noteq> None \<Longrightarrow> is_defined obj name"
  by (simp add: is_defined_def)

lemma is_defined_not_inherited:
  "name \<notin> set Object_prototype_properties \<Longrightarrow> is_defined obj name = (map_of obj name \<noteq> None)"
  by (simp add: is_defined_def)

lemma is_defined_inherited:
  "name \<in> set Object_prototype_properties \<Longrightarrow> is_defined obj name"
  by (simp add: is_defined_def)

text \<open>
  C1. A specifier that is not a type-only import, that the import classifier takes as
  external, that resolves, and whose package name is a key of \<^verbatim>\<open>dependencies\<close> is never
  reported: whatever the three allow flags are, and whatever else the development, optional
  and peer tables hold (that name included).
\<close>

theorem runtime_dependency_allowed:
  assumes "importKind node \<noteq> Some ''type''"
    and "importType w name = ''external''"
    and "resolve w name \<noteq> None"
    and "map_of (dependencies deps) (packageName_of name) \<noteq> None"
  shows "reportIfMissing w deps depsOptions node name = []"
  using assms by (auto simp: reportIfMissing_def Let_def is_defined_own split: option.splits)

theorem runtime_dependency_allowed_witness:
  "importKind (ImportDeclaration None ''lodash/fp'') \<noteq> Some ''type''
   \<and> importType example_world ''lodash/fp'' = ''external''
   \<and> resolve example_world ''lodash/fp'' \<noteq> None
   \<and> map_of (dependencies example_deps) (packageName_of ''lodash/fp'') \<noteq> None
   \<and> map_of (devDependencies example_deps) (packageName_of ''lodash/fp'') \<noteq> None
   \<and> reportIfMissing example_world example_deps
        \<lparr>allowDevDeps = False, allowOptDeps = False, allowPeerDeps = False\<rparr>
        (ImportDeclaration None ''lodash/fp'') ''lodash/fp'' = []"
proof -
  have 1: "importKind (ImportDeclaration None ''lodash/fp'') \<noteq> Some ''type''" by simp
  have 2: "importType example_world ''lodash/fp'' = ''external''"
    by (simp add: example_world_def)
  have 3: "resolve example_world ''lodash/fp'' \<noteq> None"
    by (simp add: example_world_def)
  have 4: "map_of (dependencies example_deps) (packageName_of ''lodash/fp'') \<noteq> None"
    by (simp add: example_deps_def packageName_of_def)
  have 5: "map_of (devDependencies example_deps) (packageName_of ''lodash/fp'') \<noteq> None"
    by (simp add: example_deps_def packageName_of_def)
  from runtime_dependency_allowed [OF 1 2 3 4] 1 2 3 4 5 show ?thesis by blast
qed

text \<open>
  A name that \<^verbatim>\<open>Object.prototype\<close> has passes the test \<^verbatim>\<open>isInDeps\<close> for every table, so a
  specifier with such a package name is never reported.
\<close>

lemma reportIfMissing_inherited:
  "packageName_of name \<in> set Object_prototype_properties \<Longrightarrow>
   reportIfMissing w deps depsOptions node name = []"
  by (simp add: reportIfMissing_def Let_def is_defined_inherited split: option.splits)

text \<open>
  For every other package name the development, optional and peer tables are treated as
  follows: a key of \<^verbatim>\<open>devDependencies\<close> only is reported with the devDependencies message
  unless \<^verbatim>\<open>allowDevDeps\<close> holds, a key of \<^verbatim>\<open>optionalDependencies\<close> only with the
  optionalDependencies message unless \<^verbatim>\<open>allowOptDeps\<close> holds, and a key of
  \<^verbatim>\<open>peerDependencies\<close> only with the message for a missing package when \<^verbatim>\<open>allowPeerDeps\<close> is
  false.
\<close>

lemma reportIfMissing_dev_only:
  assumes "importKind node \<noteq> Some ''type''"
    and "importType w name = ''external''"
    and "resolve w name \<noteq> None"
    and "packageName_of name \<notin> set Object_prototype_properties"
    and "map_of (devDependencies deps) (packageName_of name) \<noteq> None"
    and "map_of (dependencies deps) (packageName_of name) = None"
    and "map_of (optionalDependencies deps) (packageName_of name) = None"
    and "map_of (peerDependencies deps) (packageName_of name) = None"
  shows "reportIfMissing w deps depsOptions node name =
     (if allowDevDeps depsOptions then []
      else [ReportNode node (CHR 0x27 # packageName_of name @ CHR 0x27 #
        '' should be listed in the project's dependencies, not devDependencies.'')])"
  using assms
  by (auto simp: reportIfMissing_def Let_def devDepErrorMessage_def is_defined_not_inherited
           split: option.splits)

lemma reportIfMissing_opt_only:
  assumes "importKind node \<noteq> Some ''type''"
    and "importType w name = ''external''"
    and "resolve w name \<noteq> None"
    and "packageName_of name \<notin> set Object_prototype_properties"
    and "map_of (optionalDependencies deps) (packageName_of name) \<noteq> None"
    and "map_of (dependencies deps) (packageName_of name) = None"
    and "map_of (devDependencies deps) (packageName_of name) = None"
    and "map_of (peerDependencies deps) (packageName_of name) = None"
  shows "reportIfMissing w deps depsOptions node name =
     (if allowOptDeps depsOptions then []
      else [ReportNode node (CHR 0x27 # packageName_of name @ CHR 0x27 #
        '' should be listed in the project's dependencies, not optionalDependencies.'')])"
  using assms
  by (auto simp: reportIfMissing_def Let_def optDepErrorMessage_def is_defined_not_inherited
           split: option.splits)

lemma reportIfMissing_peer_only:
  assumes "importKind node \<noteq> Some ''type''"
    and "importType w name = ''external''"
    and "resolve w name \<noteq> None"
    and "packageName_of name \<notin> set Object_prototype_properties"
    and "map_of (peerDependencies deps) (packageName_of name) \<noteq> None"
    and "map_of (dependencies deps) (packageName_of name) = None"
    and "map_of (devDependencies deps) (packageName_of name) = None"
    and "map_of (optionalDependencies deps) (packageName_of name) = None"
    and "\<not> allowPeerDeps depsOptions"
  shows "reportIfMissing w deps depsOptions node name =
     [ReportNode node (CHR 0x27 # packageName_of name @ CHR 0x27 #
        '' should be listed in the project's dependencies. Run 'npm i -S '' @
        packageName_of name @ CHR 0x27 # '' to add it'')]"
  using assms
  by (auto simp: reportIfMissing_def Let_def missingErrorMessage_def is_defined_not_inherited
           split: option.splits)

lemma reportIfMissing_examples:
  "reportIfMissing example_world example_deps
      \<lparr>allowDevDeps = True, allowOptDeps = False, allowPeerDeps = False\<rparr>
      (CallExpression ''jest'') ''jest'' = []
   \<and> reportIfMissing example_world example_deps
      \<lparr>allowDevDeps = False, allowOptDeps = True, allowPeerDeps = True\<rparr>
      (CallExpression ''jest'') ''jest'' =
      [ReportNode (CallExpression ''jest'')
        (CHR 0x27 #
          ''jest' should be listed in the project's dependencies, not devDependencies.'')]
   \<and> reportIfMissing example_world example_deps
      \<lparr>allowDevDeps = True, allowOptDeps = False, allowPeerDeps = True\<rparr>
      (CallExpression ''fsevents'') ''fsevents'' =
      [ReportNode (CallExpression ''fsevents'')
        (CHR 0x27 #
          ''fsevents' should be listed in the project's dependencies, not optionalDependencies.'')]
   \<and> reportIfMissing example_world example_deps
      \<lparr>allowDevDeps = True, allowOptDeps = True, allowPeerDeps = False\<rparr>
      (CallExpression ''react'') ''react'' =
      [ReportNode (CallExpression ''react'')
        (CHR 0x27 #
          ''react' should be listed in the project's dependencies. Run 'npm i -S react' to add it'')]"
  by (simp add: reportIfMissing_def Let_def example_world_def example_deps_def
        packageName_of_def is_defined_def Object_prototype_properties_def
        devDepErrorMessage_def optDepErrorMessage_def missingErrorMessage_def)

text \<open>
  C2. For a specifier (not type-only, external, resolvable) whose package name is a key of
  \<^verbatim>\<open>devDependencies\<close> and of no other table, \<^verbatim>\<open>reportIfMissing\<close> reports nothing exactly
  when \<^verbatim>\<open>allowDevDeps\<close> holds, and otherwise makes one report, at the node, with the message
  \<^verbatim>\<open>'<pkg>' should be listed in the project's dependencies, not devDependencies.\<close>
  for the extracted package name. The package name is one that \<^verbatim>\<open>Object.prototype\<close> does
  not have: the others are no own keys of \<^verbatim>\<open>dependencies\<close> and yet pass its test
  (\<open>reportIfMissing_inherited\<close>).
\<close>

theorem dev_only_dependency:
  assumes "importKind node \<noteq> Some ''type''"
    and "importType w name = ''external''"
    and "resolve w name \<noteq> None"
    and "packageName_of name \<notin> set Object_prototype_properties"
    and "map_of (devDependencies deps) (packageName_of name) \<noteq> None"
    and "map_of (dependencies deps) (packageName_of name) = None"
    and "map_of (optionalDependencies deps) (packageName_of name) = None"
    and "map_of (peerDependencies deps) (packageName_of name) = None"
  shows "(reportIfMissing w deps depsOptions node name = []) = allowDevDeps depsOptions
     \<and> reportIfMissing w deps depsOptions node name =
        (if allowDevDeps depsOptions then []
         else [ReportNode node (CHR 0x27 # packageName_of name @ CHR 0x27 #
           '' should be listed in the project's dependencies, not devDependencies.'')])"
proof -
  have "reportIfMissing w deps depsOptions node name =
        (if allowDevDeps depsOptions then []
         else [ReportNode node (CHR 0x27 # packageName_of name @ CHR 0x27 #
           '' should be listed in the project's dependencies, not devDependencies.'')])"
    using assms by (rule reportIfMissing_dev_only)
  then show ?thesis by simp
qed

theorem dev_only_dependency_witness:
  "reportIfMissing example_world example_deps
      \<lparr>allowDevDeps = True, allowOptDeps = False, allowPeerDeps = False\<rparr>
      (CallExpression ''jest'') ''jest'' = []
   \<and> reportIfMissing example_world example_deps
      \<lparr>allowDevDeps = False, allowOptDeps = True, allowPeerDeps = True\<rparr>
      (CallExpression ''jest'') ''jest'' =
      [ReportNode (CallExpression ''jest'')
        (CHR 0x27 # ''jest'' @ CHR 0x27 #
         '' should be listed in the project's dependencies, not devDependencies.'')]"
proof -
  have 1: "importKind (CallExpression ''jest'') \<noteq> Some ''type''" by simp
  have 2: "importType example_world ''jest'' = ''external''"
    by (simp add: example_world_def)
  have 3: "resolve example_world ''jest'' \<noteq> None"
    by (simp add: example_world_def)
  have n: "packageName_of ''jest'' = ''jest''"
    by (simp add: packageName_of_def)
  have 4: "packageName_of ''jest'' \<notin> set Object_prototype_properties"
    by (simp add: n Object_prototype_properties_def)
  have 5: "map_of (devDependencies example_deps) (packageName_of ''jest'') \<noteq> None"
    and 6: "map_of (dependencies example_deps) (packageName_of ''jest'') = None"
    and 7: "map_of (optionalDependencies example_deps) (packageName_of ''jest'') = None"
    and 8: "map_of (peerDependencies example_deps) (packageName_of ''jest'') = None"
    by (simp_all add: example_deps_def n)
  from dev_only_dependency [OF 1 2 3 4 5 6 7 8, THEN conjunct2] show ?thesis
    by (simp add: n)
qed

text \<open>
  C3. For a specifier (not type-only, external, resolvable) whose package name is a key of
  \<^verbatim>\<open>optionalDependencies\<close> only, \<^verbatim>\<open>reportIfMissing\<close> reports nothing exactly when
  \<^verbatim>\<open>allowOptDeps\<close> holds, and otherwise reports
  \<^verbatim>\<open>'<pkg>' should be listed in the project's dependencies, not optionalDependencies.\<close>
  When the name is a key of \<^verbatim>\<open>peerDependencies\<close> only and \<^verbatim>\<open>allowPeerDeps\<close> is false, the
  report carries the message for a missing package,
  \<^verbatim>\<open>'<pkg>' should be listed in the project's dependencies. Run 'npm i -S <pkg>' to add it\<close>;
  no message of the file names \<^verbatim>\<open>peerDependencies\<close>. As in C2, the package name is one that
  \<^verbatim>\<open>Object.prototype\<close> does not have.
\<close>

theorem optional_only_and_peer_only_dependency:
  assumes "importKind node \<noteq> Some ''type''"
    and "importType w name = ''external''"
    and "resolve w name \<noteq> None"
    and "packageName_of name \<notin> set Object_prototype_properties"
    and "map_of (dependencies deps) (packageName_of name) = None"
    and "map_of (devDependencies deps) (packageName_of name) = None"
  shows "(map_of (optionalDependencies deps) (packageName_of name) \<noteq> None \<and>
          map_of (peerDependencies deps) (packageName_of name) = None \<longrightarrow>
          (reportIfMissing w deps depsOptions node name = []) = allowOptDeps depsOptions \<and>
          reportIfMissing w deps depsOptions node name =
            (if allowOptDeps depsOptions then []
             else [ReportNode node (CHR 0x27 # packageName_of name @ CHR 0x27 #
               '' should be listed in the project's dependencies, not optionalDependencies.'')]))
       \<and> (map_of (peerDependencies deps) (packageName_of name) \<noteq> None \<and>
          map_of (optionalDependencies deps) (packageName_of name) = None \<and>
          \<not> allowPeerDeps depsOptions \<longrightarrow>
          reportIfMissing w deps depsOptions node name =
            [ReportNode node (CHR 0x27 # packageName_of name @ CHR 0x27 #
               '' should be listed in the project's dependencies. Run 'npm i -S '' @
               packageName_of name @ CHR 0x27 # '' to add it'')])"
proof (intro conjI impI)
  assume a: "map_of (optionalDependencies deps) (packageName_of name) \<noteq> None \<and>
          map_of (peerDependencies deps) (packageName_of name) = None"
  with assms have r: "reportIfMissing w deps depsOptions node name =
            (if allowOptDeps depsOptions then []
             else [ReportNode node (CHR 0x27 # packageName_of name @ CHR 0x27 #
               '' should be listed in the project's dependencies, not optionalDependencies.'')])"
    by (intro reportIfMissing_opt_only) simp_all
  then show "(reportIfMissing w deps depsOptions node name = []) = allowOptDeps depsOptions"
    by simp
  from r show "reportIfMissing w deps depsOptions node name =
            (if allowOptDeps depsOptions then []
             else [ReportNode node (CHR 0x27 # packageName_of name @ CHR 0x27 #
               '' should be listed in the project's dependencies, not optionalDependencies.'')])" .
next
  assume "map_of (peerDependencies deps) (packageName_of name) \<noteq> None \<and>
          map_of (optionalDependencies deps) (packageName_of name) = None \<and>
          \<not> allowPeerDeps depsOptions"
  with assms show "reportIfMissing w deps depsOptions node name =
            [ReportNode node (CHR 0x27 # packageName_of name @ CHR 0x27 #
               '' should be listed in the project's dependencies. Run 'npm i -S '' @
               packageName_of name @ CHR 0x27 # '' to add it'')]"
    by (intro reportIfMissing_peer_only) simp_all
qed

theorem optional_only_and_peer_only_dependency_witness:
  "reportIfMissing example_world example_deps
      \<lparr>allowDevDeps = False, allowOptDeps = True, allowPeerDeps = False\<rparr>
      (CallExpression ''fsevents'') ''fsevents'' = []
   \<and> reportIfMissing example_world example_deps
      \<lparr>allowDevDeps = True, allowOptDeps = False, allowPeerDeps = True\<rparr>
      (CallExpression ''fsevents'') ''fsevents'' =
      [ReportNode (CallExpression ''fsevents'')
        (CHR 0x27 # ''fsevents'' @ CHR 0x27 #
         '' should be listed in the project's dependencies, not optionalDependencies.'')]
   \<and> reportIfMissing example_world example_deps
      \<lparr>allowDevDeps = True, allowOptDeps = True, allowPeerDeps = False\<rparr>
      (CallExpression ''react'') ''react'' =
      [ReportNode (CallExpression ''react'')
        (CHR 0x27 # ''react'' @ CHR 0x27 #
         '' should be listed in the project's dependencies. Run 'npm i -S '' @
         ''react'' @ CHR 0x27 # '' to add it'')]"
proof -
  have k: "importKind (CallExpression ''fsevents'') \<noteq> Some ''type''"
    "importKind (CallExpression ''react'') \<noteq> Some ''type''"
    by simp_all
  have e: "importType example_world ''fsevents'' = ''external''"
    "importType example_world ''react'' = ''external''"
    by (simp_all add: example_world_def)
  have r: "resolve example_world ''fsevents'' \<noteq> None"
    "resolve example_world ''react'' \<noteq> None"
    by (simp_all add: example_world_def)
  have n: "packageName_of ''fsevents'' = ''fsevents''" "packageName_of ''react'' = ''react''"
    by (simp_all add: packageName_of_def)
  have i: "packageName_of ''fsevents'' \<notin> set Object_prototype_properties"
    "packageName_of ''react'' \<notin> set Object_prototype_properties"
    by (simp_all add: n Object_prototype_properties_def)
  have f: "map_of (dependencies example_deps) (packageName_of ''fsevents'') = None"
    "map_of (devDependencies example_deps) (packageName_of ''fsevents'') = None"
    "map_of (optionalDependencies example_deps) (packageName_of ''fsevents'') \<noteq> None \<and>
     map_of (peerDependencies example_deps) (packageName_of ''fsevents'') = None"
    by (simp_all add: example_deps_def n)
  have p: "map_of (dependencies example_deps) (packageName_of ''react'') = None"
    "map_of (devDependencies example_deps) (packageName_of ''react'') = None"
    "map_of (peerDependencies example_deps) (packageName_of ''react'') \<noteq> None \<and>
     map_of (optionalDependencies example_deps) (packageName_of ''react'') = None \<and>
     \<not> allowPeerDeps \<lparr>allowDevDeps = True, allowOptDeps = True, allowPeerDeps = False\<rparr>"
    by (simp_all add: example_deps_def n)
  note t1 = optional_only_and_peer_only_dependency [OF k(1) e(1) r(1) i(1) f(1) f(2),
      THEN conjunct1, THEN mp, OF f(3), THEN conjunct2]
  note t2 = optional_only_and_peer_only_dependency [OF k(2) e(2) r(2) i(2) p(1) p(2),
      THEN conjunct2, THEN mp, OF p(3)]
  from t1 t2 show ?thesis by (simp add: n)
qed

text \<open>
  C5. A specifier is never reported when it is a type-only import, when the import
  classifier does not answer \<^verbatim>\<open>'external'\<close> for it, or when it does not resolve; this holds
  for every table and every setting of the allow flags. The checks are made in this order:
  a type-only import is left alone whatever the classifier and the resolver would answer,
  and a specifier that is not external whatever the resolver would answer.
\<close>

theorem skipped_specifiers_never_reported:
  "(importKind node = Some ''type'' \<longrightarrow>
      reportIfMissing (w\<lparr>importType := t, resolve := r\<rparr>) deps depsOptions node name = [])
   \<and> (importType w name \<noteq> ''external'' \<longrightarrow>
      reportIfMissing (w\<lparr>resolve := r\<rparr>) deps depsOptions node name = [])
   \<and> (resolve w name = None \<longrightarrow>
      reportIfMissing w deps depsOptions node name = [])"
  by (simp add: reportIfMissing_def)


theorem skipped_specifiers_never_reported_witness:
  "reportIfMissing example_world example_deps
      \<lparr>allowDevDeps = False, allowOptDeps = False, allowPeerDeps = False\<rparr>
      (ImportDeclaration (Some ''type'') ''left-pad'') ''left-pad'' = []
   \<and> reportIfMissing example_world example_deps
      \<lparr>allowDevDeps = False, allowOptDeps = False, allowPeerDeps = False\<rparr>
      (ImportDeclaration None ''../left-pad'') ''../left-pad'' = []
   \<and> reportIfMissing example_world example_deps
      \<lparr>allowDevDeps = False, allowOptDeps = False, allowPeerDeps = False\<rparr>
      (ImportDeclaration None ''ghost'') ''ghost'' = []
   \<and> reportIfMissing example_world example_deps
      \<lparr>allowDevDeps = False, allowOptDeps = False, allowPeerDeps = False\<rparr>
      (ImportDeclaration None ''left-pad'') ''left-pad'' \<noteq> []"
proof -
  let ?o = "\<lparr>allowDevDeps = False, allowOptDeps = False, allowPeerDeps = False\<rparr>"
  have w: "example_world\<lparr>importType := importType example_world,
                         resolve := resolve example_world\<rparr> = example_world"
    "example_world\<lparr>resolve := resolve example_world\<rparr> = example_world"
    by simp_all
  have 1: "importKind (ImportDeclaration (Some ''type'') ''left-pad'') = Some ''type''"
    by simp
  have 2: "importType example_world ''../left-pad'' \<noteq> ''external''"
    by (simp add: example_world_def)
  have 3: "resolve example_world ''ghost'' = None"
    by (simp add: example_world_def)
  have 4: "reportIfMissing example_world example_deps ?o
      (ImportDeclaration None ''left-pad'') ''left-pad'' \<noteq> []"
    by (simp add: reportIfMissing_def Let_def example_world_def example_deps_def
          packageName_of_def is_defined_def Object_prototype_properties_def)
  from skipped_specifiers_never_reported
      [where node = "ImportDeclaration (Some ''type'') ''left-pad''" and w = example_world
          and t = "importType example_world" and r = "resolve example_world"
          and deps = example_deps and depsOptions = "?o" and name = "''left-pad''"]
    skipped_specifiers_never_reported
      [where node = "ImportDeclaration None ''../left-pad''" and w = example_world
          and t = "importType example_world" and r = "resolve example_world"
          and deps = example_deps and depsOptions = "?o" and name = "''../left-pad''"]
    skipped_specifiers_never_reported
      [where node = "ImportDeclaration None ''ghost''" and w = example_world
          and t = "importType example_world" and r = "resolve example_world"
          and deps = example_deps and depsOptions = "?o" and name = "''ghost''"]
    1 2 3 4
  show ?thesis by (simp only: w) blast
qed

subsection \<open>Building the table\<close>








lemma catch_report_cases:
  "catch_report e =
     ReportLoc
       (if err_code e = Some ''ENOENT'' then ''The package.json file could not be found.''
        else if err_name e = ''JSONError'' \<or> err_instanceof_SyntaxError e
        then ''The package.json file could not be parsed: '' @ err_message e
        else err_message e) 0 0"
  by (simp add: catch_report_def)

lemma getDependencies_throws:
  "getDependencies_try w packageDir = Inl e \<Longrightarrow>
   getDependencies w packageDir = (None, [catch_report e])"
  by (simp add: getDependencies_def)

lemma getDependencies_empty:
  "getDependencies_try w packageDir = Inr (files, deps) \<Longrightarrow>
   dependencies deps = [] \<Longrightarrow> devDependencies deps = [] \<Longrightarrow>
   optionalDependencies deps = [] \<Longrightarrow> peerDependencies deps = [] \<Longrightarrow>
   getDependencies w packageDir = (None, [])"
  by (simp add: getDependencies_def hasKeys_def)

lemma lintFile_no_table:
  "getDependencies w (opt_packageDir (options_of ruleOptions)) = (None, reports) \<Longrightarrow>
   create w ruleOptions = (reports, None) \<and> lintFile w ruleOptions nodes = reports"
  by (simp add: create_def lintFile_def)


text \<open>
  A configured manifest whose only key is \<^verbatim>\<open>__proto__\<close> adds nothing: the four tables stay
  empty and \<^verbatim>\<open>getDependencies\<close> returns undefined, without a report.
\<close>

lemma getDependencies_proto_example:
  "getDependencies proto_world (PDString ''/inner'') = (None, [])"
  by (simp add: getDependencies_def getDependencies_try_def proto_world_def bare_world_def
        example_world_def extractDepFields_def assignDeps_def Object_assign_def Object_set_def
        hasKeys_def Let_def)





lemma getDependencies_no_nearest_manifest:
  assumes "readPkgUp_sync w (getFilename w) = Inr closest"
    and "closest_pkg closest = None"
  shows "getDependencies w packageDir =
     (None, [ReportLoc (err_message (TypeError_undefined ''dependencies'')) 0 0])"
proof -
  have "getDependencies_try w packageDir = Inl (TypeError_undefined ''dependencies'')"
    using assms by (simp add: getDependencies_try_def extractDepFields_def)
  then have "getDependencies w packageDir =
      (None, [catch_report (TypeError_undefined ''dependencies'')])"
    by (rule getDependencies_throws)
  then show ?thesis
    by (simp add: catch_report_cases) (simp add: TypeError_undefined_def)
qed

text \<open>
  C8. A failure to acquire a manifest makes one report at line 0, column 0, whose message
  depends on the error thrown (\<open>getDependencies_throws\<close>, \<open>catch_report_cases\<close>). For a file
  with no manifest in any directory above it nothing is thrown by the locator: the object it
  returns has no \<^verbatim>\<open>pkg\<close>, reading \<^verbatim>\<open>pkg.dependencies\<close> throws a \<^verbatim>\<open>TypeError\<close>, and the
  report carries that error's message and not
  \<^verbatim>\<open>The package.json file could not be found.\<close> (\<open>getDependencies_no_nearest_manifest\<close>).
  A configured directory without a manifest does get that message.
\<close>

theorem upward_walk_failure_report:
  "getDependencies orphan_world PDUndefined =
     (None, [ReportLoc ''Cannot read property 'dependencies' of undefined'' 0 0])
   \<and> ''Cannot read property 'dependencies' of undefined'' \<noteq>
     ''The package.json file could not be found.''
   \<and> getDependencies example_world (PDString ''/nowhere'') =
     (None, [ReportLoc ''The package.json file could not be found.'' 0 0])"
  by (simp add: getDependencies_def getDependencies_try_def orphan_world_def example_world_def
        extractDepFields_def TypeError_undefined_def catch_report_def ENOENT_def Let_def)

text \<open>
  C9. Without a table no import is looked at. When acquiring the manifests throws,
  \<^verbatim>\<open>create\<close> makes the single report of the \<^verbatim>\<open>catch\<close> block (at line 0, column 0) and
  returns the empty visitor object, so linting the file yields that report and nothing
  else, whatever nodes the file has. When the four merged tables are all empty, \<^verbatim>\<open>create\<close>
  reports nothing and returns the empty visitor object, so linting the file yields no
  report at all.
\<close>

theorem no_table_no_classification:
  "(case getDependencies_try w (opt_packageDir (options_of ruleOptions)) of
      Inl e \<Rightarrow>
        create w ruleOptions = ([catch_report e], None) \<and>
        lintFile w ruleOptions nodes = [catch_report e] \<and>
        (\<exists>message. catch_report e = ReportLoc message 0 0)
    | Inr (files, deps) \<Rightarrow>
        (dependencies deps = [] \<and> devDependencies deps = [] \<and>
         optionalDependencies deps = [] \<and> peerDependencies deps = [] \<longrightarrow>
         create w ruleOptions = ([], None) \<and> lintFile w ruleOptions nodes = []))"
proof (cases "getDependencies_try w (opt_packageDir (options_of ruleOptions))")
  case (Inl e)
  then have "getDependencies w (opt_packageDir (options_of ruleOptions)) = (None, [catch_report e])"
    by (rule getDependencies_throws)
  then have "create w ruleOptions = ([catch_report e], None) \<and>
      lintFile w ruleOptions nodes = [catch_report e]"
    by (rule lintFile_no_table)
  with Inl show ?thesis
    by (simp add: catch_report_cases)
next
  case (Inr r)
  obtain files deps where r: "r = (files, deps)" by (cases r)
  have "create w ruleOptions = ([], None) \<and> lintFile w ruleOptions nodes = []"
    if "dependencies deps = []" "devDependencies deps = []"
      "optionalDependencies deps = []" "peerDependencies deps = []"
    using Inr r that by (intro lintFile_no_table getDependencies_empty) auto
  with Inr r show ?thesis by simp
qed

theorem no_table_no_classification_witness:
  "lintFile orphan_world None [ImportDeclaration None ''left-pad'', CallExpression ''jest''] =
     [ReportLoc ''Cannot read property 'dependencies' of undefined'' 0 0]
   \<and> lintFile example_world
       (Some \<lparr>opt_devDependencies = CBoolean False, opt_optionalDependencies = CUndefined,
          opt_peerDependencies = CUndefined, opt_packageDir = PDString ''/nowhere''\<rparr>)
       [ImportDeclaration None ''left-pad'', CallExpression ''jest''] =
     [ReportLoc ''The package.json file could not be found.'' 0 0]
   \<and> lintFile bare_world None [ImportDeclaration None ''left-pad'', CallExpression ''jest''] = []
   \<and> lintFile example_world None [ImportDeclaration None ''left-pad'', CallExpression ''jest''] =
     [ReportNode (ImportDeclaration None ''left-pad'') (missingErrorMessage ''left-pad'')]"
proof -
  let ?nodes = "[ImportDeclaration None ''left-pad'', CallExpression ''jest'']"
  let ?opts = "Some \<lparr>opt_devDependencies = CBoolean False, opt_optionalDependencies = CUndefined,
          opt_peerDependencies = CUndefined, opt_packageDir = PDString ''/nowhere''\<rparr>"
  have 1: "getDependencies_try orphan_world (opt_packageDir (options_of None)) =
      Inl (TypeError_undefined ''dependencies'')"
    by (simp add: getDependencies_try_def orphan_world_def example_world_def
          extractDepFields_def options_of_def)
  have 2: "getDependencies_try example_world (opt_packageDir (options_of ?opts)) = Inl ENOENT"
    by (simp add: getDependencies_try_def example_world_def extractDepFields_def
          options_of_def Let_def)
  have 3: "getDependencies_try bare_world (opt_packageDir (options_of None)) =
      Inr ([Some ''/proj/package.json''],
        \<lparr>dependencies = [], devDependencies = [], optionalDependencies = [],
         peerDependencies = []\<rparr>)"
    by (simp add: getDependencies_try_def bare_world_def example_world_def
          extractDepFields_def options_of_def)
  have 4: "lintFile example_world None ?nodes =
     [ReportNode (ImportDeclaration None ''left-pad'') (missingErrorMessage ''left-pad'')]"
    by (simp add: lintFile_def create_def options_of_def getDependencies_def
          getDependencies_try_def example_world_def extractDepFields_def example_pkg_def
          hasKeys_def testConfig_def reportIfMissing_def packageName_of_def Let_def
          is_defined_def Object_prototype_properties_def)
  from no_table_no_classification [of orphan_world None ?nodes]
    no_table_no_classification [of example_world ?opts ?nodes]
    no_table_no_classification [of bare_world None ?nodes]
    1 2 3 4
  show ?thesis
    by (simp add: catch_report_def TypeError_undefined_def ENOENT_def)
qed

subsection \<open>The allow policy\<close>

lemma create_depsOptions:
  "create w ruleOptions = (reports, Some (deps, depsOptions)) \<Longrightarrow>
   allowDevDeps depsOptions =
     (testConfig w (opt_devDependencies (options_of ruleOptions)) (getFilename w) \<noteq> Some False) \<and>
   allowOptDeps depsOptions =
     (testConfig w (opt_optionalDependencies (options_of ruleOptions)) (getFilename w) \<noteq> Some False) \<and>
   allowPeerDeps depsOptions =
     (testConfig w (opt_peerDependencies (options_of ruleOptions)) (getFilename w) \<noteq> Some False)"
  by (auto simp: create_def Let_def split: prod.splits option.splits)

lemma lintFile_single_import:
  assumes "getDependencies w (opt_packageDir (options_of ruleOptions)) = (Some deps, [])"
  shows "lintFile w ruleOptions [ImportDeclaration kind name] =
     reportIfMissing w deps
       \<lparr>allowDevDeps =
          (testConfig w (opt_devDependencies (options_of ruleOptions)) (getFilename w) \<noteq> Some False),
        allowOptDeps =
          (testConfig w (opt_optionalDependencies (options_of ruleOptions)) (getFilename w)
             \<noteq> Some False),
        allowPeerDeps =
          (testConfig w (opt_peerDependencies (options_of ruleOptions)) (getFilename w)
             \<noteq> Some False)\<rparr>
       (ImportDeclaration kind name) name"
  using assms by (simp add: lintFile_def create_def Let_def)

text \<open>
  C10. \<^verbatim>\<open>testConfig\<close> returns an undefined or boolean option as it is; for an array of
  patterns it returns whether the file name matches some pattern, either as written or
  joined onto the working directory. \<^verbatim>\<open>create\<close> allows a category unless the result is
  \<^verbatim>\<open>false\<close>, so an undefined option allows it. With \<^verbatim>\<open>devDependencies: ['test/**']\<close>, and a
  glob matcher for which \<^verbatim>\<open>test/unit/foo.js\<close> matches \<^verbatim>\<open>test/**\<close> while \<^verbatim>\<open>src/foo.js\<close> matches
  neither form of the pattern, importing a package that is only a development dependency
  (and whose name \<^verbatim>\<open>Object.prototype\<close> does not have) is not reported in the first file and
  is reported with the devDependencies message in the second.
\<close>

theorem glob_policy:
  "testConfig w CUndefined filename = None
   \<and> testConfig w (CBoolean b) filename = Some b
   \<and> testConfig w (CArray cs) filename =
       Some (\<exists>c\<in>set cs. minimatch w filename c \<or>
                          minimatch w filename (path_join w (process_cwd w) c))
   \<and> (\<forall>reports deps depsOptions.
         create w ruleOptions = (reports, Some (deps, depsOptions)) \<longrightarrow>
         allowDevDeps depsOptions =
           (testConfig w (opt_devDependencies (options_of ruleOptions)) (getFilename w)
              \<noteq> Some False) \<and>
         allowOptDeps depsOptions =
           (testConfig w (opt_optionalDependencies (options_of ruleOptions)) (getFilename w)
              \<noteq> Some False) \<and>
         allowPeerDeps depsOptions =
           (testConfig w (opt_peerDependencies (options_of ruleOptions)) (getFilename w)
              \<noteq> Some False))
   \<and> (\<forall>deps name.
         opt_devDependencies (options_of ruleOptions) = CArray [''test/**''] \<and>
         getDependencies w (opt_packageDir (options_of ruleOptions)) = (Some deps, []) \<and>
         importType w name = ''external'' \<and> resolve w name \<noteq> None \<and>
         packageName_of name \<notin> set Object_prototype_properties \<and>
         map_of (devDependencies deps) (packageName_of name) \<noteq> None \<and>
         map_of (dependencies deps) (packageName_of name) = None \<and>
         map_of (optionalDependencies deps) (packageName_of name) = None \<and>
         map_of (peerDependencies deps) (packageName_of name) = None \<longrightarrow>
         (getFilename w = ''test/unit/foo.js'' \<and>
          minimatch w ''test/unit/foo.js'' ''test/**'' \<longrightarrow>
          lintFile w ruleOptions [ImportDeclaration None name] = []) \<and>
         (getFilename w = ''src/foo.js'' \<and>
          \<not> minimatch w ''src/foo.js'' ''test/**'' \<and>
          \<not> minimatch w ''src/foo.js'' (path_join w (process_cwd w) ''test/**'') \<longrightarrow>
          lintFile w ruleOptions [ImportDeclaration None name] =
            [ReportNode (ImportDeclaration None name)
               (devDepErrorMessage (packageName_of name))]))"
proof (intro conjI allI impI)
  show "testConfig w CUndefined filename = None"
    and "testConfig w (CBoolean b) filename = Some b"
    and "testConfig w (CArray cs) filename =
       Some (\<exists>c\<in>set cs. minimatch w filename c \<or>
                          minimatch w filename (path_join w (process_cwd w) c))"
    by (simp_all add: testConfig_def list_ex_iff)
next
  fix reports deps depsOptions
  assume c: "create w ruleOptions = (reports, Some (deps, depsOptions))"
  from create_depsOptions [OF c]
  show "allowDevDeps depsOptions =
           (testConfig w (opt_devDependencies (options_of ruleOptions)) (getFilename w)
              \<noteq> Some False)"
    and "allowOptDeps depsOptions =
           (testConfig w (opt_optionalDependencies (options_of ruleOptions)) (getFilename w)
              \<noteq> Some False)"
    and "allowPeerDeps depsOptions =
           (testConfig w (opt_peerDependencies (options_of ruleOptions)) (getFilename w)
              \<noteq> Some False)"
    by blast+
next
  fix deps name
  assume a: "opt_devDependencies (options_of ruleOptions) = CArray [''test/**''] \<and>
         getDependencies w (opt_packageDir (options_of ruleOptions)) = (Some deps, []) \<and>
         importType w name = ''external'' \<and> resolve w name \<noteq> None \<and>
         packageName_of name \<notin> set Object_prototype_properties \<and>
         map_of (devDependencies deps) (packageName_of name) \<noteq> None \<and>
         map_of (dependencies deps) (packageName_of name) = None \<and>
         map_of (optionalDependencies deps) (packageName_of name) = None \<and>
         map_of (peerDependencies deps) (packageName_of name) = None"
  then have l: "lintFile w ruleOptions [ImportDeclaration None name] =
     (if testConfig w (CArray [''test/**'']) (getFilename w) \<noteq> Some False then []
      else [ReportNode (ImportDeclaration None name) (devDepErrorMessage (packageName_of name))])"
    by (simp add: lintFile_single_import reportIfMissing_dev_only devDepErrorMessage_def)
  {
    assume "getFilename w = ''test/unit/foo.js'' \<and> minimatch w ''test/unit/foo.js'' ''test/**''"
    with l show "lintFile w ruleOptions [ImportDeclaration None name] = []"
      by (simp add: testConfig_def)
  }
  {
    assume "getFilename w = ''src/foo.js'' \<and>
          \<not> minimatch w ''src/foo.js'' ''test/**'' \<and>
          \<not> minimatch w ''src/foo.js'' (path_join w (process_cwd w) ''test/**'')"
    with l show "lintFile w ruleOptions [ImportDeclaration None name] =
            [ReportNode (ImportDeclaration None name)
               (devDepErrorMessage (packageName_of name))]"
      by (simp add: testConfig_def)
  }
qed

theorem glob_policy_witness:
  "testConfig example_world (CArray [''lib/**'', ''test/**'']) ''/proj/test/unit/foo.js'' = Some True
   \<and> testConfig example_world (CArray []) ''test/unit/foo.js'' = Some False
   \<and> create (example_world\<lparr>getFilename := ''src/foo.js''\<rparr>)
       (Some \<lparr>opt_devDependencies = CArray [''test/**''], opt_optionalDependencies = CUndefined,
          opt_peerDependencies = CBoolean False, opt_packageDir = PDUndefined\<rparr>) =
     ([], Some (example_deps,
        \<lparr>allowDevDeps = False, allowOptDeps = True, allowPeerDeps = False\<rparr>))
   \<and> lintFile (example_world\<lparr>getFilename := ''test/unit/foo.js''\<rparr>)
       (Some \<lparr>opt_devDependencies = CArray [''test/**''], opt_optionalDependencies = CUndefined,
          opt_peerDependencies = CBoolean False, opt_packageDir = PDUndefined\<rparr>)
       [ImportDeclaration None ''jest''] = []
   \<and> lintFile (example_world\<lparr>getFilename := ''src/foo.js''\<rparr>)
       (Some \<lparr>opt_devDependencies = CArray [''test/**''], opt_optionalDependencies = CUndefined,
          opt_peerDependencies = CBoolean False, opt_packageDir = PDUndefined\<rparr>)
       [ImportDeclaration None ''jest''] =
     [ReportNode (ImportDeclaration None ''jest'') (devDepErrorMessage ''jest'')]"
proof -
  let ?opts = "Some \<lparr>opt_devDependencies = CArray [''test/**''],
      opt_optionalDependencies = CUndefined, opt_peerDependencies = CBoolean False,
      opt_packageDir = PDUndefined\<rparr>"
  let ?w1 = "example_world\<lparr>getFilename := ''test/unit/foo.js''\<rparr>"
  let ?w2 = "example_world\<lparr>getFilename := ''src/foo.js''\<rparr>"
  have n: "packageName_of ''jest'' = ''jest''"
    by (simp add: packageName_of_def)
  have t: "\<And>f. getDependencies (example_world\<lparr>getFilename := f\<rparr>) PDUndefined =
      (Some example_deps, [])"
    by (simp add: getDependencies_def getDependencies_try_def example_world_def
          extractDepFields_def example_pkg_def example_deps_def hasKeys_def)
  have h: "\<And>f. opt_devDependencies (options_of ?opts) = CArray [''test/**''] \<and>
      getDependencies (example_world\<lparr>getFilename := f\<rparr>) (opt_packageDir (options_of ?opts)) =
        (Some example_deps, []) \<and>
      importType (example_world\<lparr>getFilename := f\<rparr>) ''jest'' = ''external'' \<and>
      resolve (example_world\<lparr>getFilename := f\<rparr>) ''jest'' \<noteq> None \<and>
      packageName_of ''jest'' \<notin> set Object_prototype_properties \<and>
      map_of (devDependencies example_deps) (packageName_of ''jest'') \<noteq> None \<and>
      map_of (dependencies example_deps) (packageName_of ''jest'') = None \<and>
      map_of (optionalDependencies example_deps) (packageName_of ''jest'') = None \<and>
      map_of (peerDependencies example_deps) (packageName_of ''jest'') = None"
    by (simp add: options_of_def t n)
       (simp add: example_world_def example_deps_def Object_prototype_properties_def)
  have m1: "getFilename ?w1 = ''test/unit/foo.js'' \<and>
      minimatch ?w1 ''test/unit/foo.js'' ''test/**''"
    by (simp add: example_world_def)
  have m2: "getFilename ?w2 = ''src/foo.js'' \<and>
      \<not> minimatch ?w2 ''src/foo.js'' ''test/**'' \<and>
      \<not> minimatch ?w2 ''src/foo.js'' (path_join ?w2 (process_cwd ?w2) ''test/**'')"
    by (simp add: example_world_def)
  note g1 = glob_policy [where w = ?w1 and ruleOptions = ?opts]
  note g2 = glob_policy [where w = ?w2 and ruleOptions = ?opts]
  note e1 = g1 [THEN conjunct2, THEN conjunct2, THEN conjunct2, THEN conjunct2,
      THEN spec, THEN spec, THEN mp, OF h, THEN conjunct1, THEN mp, OF m1]
  note e2 = g2 [THEN conjunct2, THEN conjunct2, THEN conjunct2, THEN conjunct2,
      THEN spec, THEN spec, THEN mp, OF h, THEN conjunct2, THEN mp, OF m2]
  note a = glob_policy [where w = example_world, THEN conjunct2, THEN conjunct2, THEN conjunct1]
  have 1: "testConfig example_world (CArray [''lib/**'', ''test/**'']) ''/proj/test/unit/foo.js'' =
      Some True"
    by (simp add: a) (simp add: example_world_def)
  have 2: "testConfig example_world (CArray []) ''test/unit/foo.js'' = Some False"
    by (simp add: a)
  obtain reports deps depsOptions where
    c: "create ?w2 ?opts = (reports, Some (deps, depsOptions))"
    by (simp add: create_def options_of_def t Let_def)
  note f = g2 [THEN conjunct2, THEN conjunct2, THEN conjunct2, THEN conjunct1,
      THEN spec, THEN spec, THEN spec, THEN mp, OF c]
  have "testConfig ?w2 (CArray [''test/**'']) ''src/foo.js'' = Some False"
    "testConfig ?w2 CUndefined ''src/foo.js'' = None"
    "testConfig ?w2 (CBoolean False) ''src/foo.js'' = Some False"
    by (simp_all add: g2 [THEN conjunct1] g2 [THEN conjunct2, THEN conjunct1]
         g2 [THEN conjunct2, THEN conjunct2, THEN conjunct1]) (simp add: example_world_def)
  with f have "allowDevDeps depsOptions = False \<and> allowOptDeps depsOptions = True \<and>
      allowPeerDeps depsOptions = False"
    by (simp add: options_of_def)
  then have "depsOptions = \<lparr>allowDevDeps = False, allowOptDeps = True, allowPeerDeps = False\<rparr>"
    by (cases depsOptions) simp
  moreover from c have "reports = [] \<and> deps = example_deps"
    by (simp add: create_def options_of_def t Let_def)
  ultimately have 3: "create ?w2 ?opts =
      ([], Some (example_deps,
        \<lparr>allowDevDeps = False, allowOptDeps = True, allowPeerDeps = False\<rparr>))"
    using c by simp
  from 1 2 3 e1 e2 show ?thesis by (simp add: n)
qed

end
